theory Spec2Isabelle
  imports Complex_Main "HOL-Library.Char_ord" "HOL-Library.List_Lexorder"
    "HOL-Library.Product_Lexorder" "HOL-Library.Multiset"
begin

section \<open>The priority engine of planner\_db.py\<close>

text \<open>
  The scoring functions of \<^verbatim>\<open>planner_db.py\<close> are embedded as HOL functions.
  Python floats are read as exact rationals; every constant of the source (30.0, 40.0,
  1.5, 25.0, the thresholds 80, 60, 40) is a rational and every comparison of the source
  is made on the exact value. Strings are lists of characters, a character being a code
  point below 256; \<open>lower\<close>, \<open>strip\<close>, \<open>isdigit\<close> and the conversion \<^verbatim>\<open>int(s)\<close>
  follow Python on these. What the source takes from outside are parameters: the date
  parser of \<^verbatim>\<open>dateutil\<close> (\<open>parse\<close> gives the day number of a date string, or
  \<open>None\<close> where the parser raises), \<^verbatim>\<open>date.today()\<close> (\<open>today\<close> is the day number of
  the current date) and the interpreter's limit on the number of digits of a conversion
  between \<^verbatim>\<open>int\<close> and \<^verbatim>\<open>str\<close> (\<open>max_str_digits\<close>: 4300 by default from
  Python 3.11 on, 0 where there is no limit).
\<close>

subsection \<open>Data\<close>

datatype py_error = ZeroDivisionError | ValueError

text \<open>
  An element of the JSON list \<^verbatim>\<open>dependencies\<close>: an integer or a string. (Any other
  JSON value is dropped by the source's filter exactly as a string that is not made of
  digits is.)
\<close>

datatype dep = DInt int | DStr string

text \<open>
  A row of the task table, with the columns of \<^verbatim>\<open>class Task\<close>. A column that the
  source reads with \<^verbatim>\<open>row.get\<close> is optional: \<open>None\<close> is a key that is absent (for
  \<^verbatim>\<open>due_date\<close> also the value \<^verbatim>\<open>None\<close>).
\<close>

record task =
  id :: int
  title :: string
  description :: string
  status :: "string option"
  category :: string
  due_date :: "string option"
  required_info :: "string list option"
  received_info :: "string list option"
  business_impact :: "string option"
  effort :: "int option"
  dependencies :: "dep list option"
  priority_label :: string
  priority_score :: rat
  last_updated :: "string option"
  tags :: "string list"

subsection \<open>Strings\<close>

text \<open>
  \<^verbatim>\<open>str.isspace\<close> on one character: the ASCII white space (tab to carriage return,
  the four separators 28 to 31, the blank), the next-line control 133 and the no-break
  space 160.
\<close>

definition isspace :: "char \<Rightarrow> bool" where
  "isspace c = (let n = (of_char c :: nat)
                in (9 \<le> n \<and> n \<le> 13) \<or> (28 \<le> n \<and> n \<le> 32) \<or> n = 133 \<or> n = 160)"

text \<open>
  \<^verbatim>\<open>str.isdecimal\<close> and \<^verbatim>\<open>str.isdigit\<close> on one character. The digits 0 to 9 are
  decimal; the superscripts two, three and one (178, 179, 185) are digits that are not
  decimal, so \<^verbatim>\<open>isdigit\<close> accepts them and \<^verbatim>\<open>int\<close> does not.
\<close>

definition isdecimal_char :: "char \<Rightarrow> bool" where
  "isdecimal_char c = (let n = (of_char c :: nat) in 48 \<le> n \<and> n \<le> 57)"

definition isdigit_char :: "char \<Rightarrow> bool" where
  "isdigit_char c = (let n = (of_char c :: nat)
                     in (48 \<le> n \<and> n \<le> 57) \<or> n = 178 \<or> n = 179 \<or> n = 185)"

text \<open>
  \<^verbatim>\<open>str.lower\<close> on one character: A to Z, and the capital letters 192 to 222 other
  than the multiplication sign 215, move up by 32.
\<close>

definition lower_char :: "char \<Rightarrow> char" where
  "lower_char c = (let n = (of_char c :: nat)
                   in if (65 \<le> n \<and> n \<le> 90) \<or> (192 \<le> n \<and> n \<le> 222 \<and> n \<noteq> 215)
                      then char_of (n + 32) else c)"

definition lower :: "string \<Rightarrow> string" where
  "lower s = map lower_char s"

definition strip :: "string \<Rightarrow> string" where
  "strip s = rev (dropWhile isspace (rev (dropWhile isspace s)))"

text \<open>The expression \<^verbatim>\<open>x.strip().lower()\<close> of \<^verbatim>\<open>_info_points\<close>.\<close>

definition strip_lower :: "string \<Rightarrow> string" where
  "strip_lower x = lower (strip x)"

text \<open>\<^verbatim>\<open>str.isdigit\<close>: non-empty and all digits.\<close>

definition isdigit :: "string \<Rightarrow> bool" where
  "isdigit s = (s \<noteq> [] \<and> list_all isdigit_char s)"

text \<open>The value of \<^verbatim>\<open>int(s)\<close> for a string of decimal digits.\<close>

definition int_of_digits :: "string \<Rightarrow> int" where
  "int_of_digits s = foldl (\<lambda>a c. 10 * a + (int (of_char c) - 48)) 0 s"

text \<open>
  A conversion between \<^verbatim>\<open>int\<close> and \<^verbatim>\<open>str\<close> raises \<^verbatim>\<open>ValueError\<close> when
  the number has more digits than the interpreter's limit, if there is one (Python admits
  the limit 0, for none, and limits from 640 on). \<open>decimal_digits\<close> counts the digits of
  a natural number.
\<close>

definition exceeds_limit :: "nat \<Rightarrow> nat \<Rightarrow> bool" where
  "exceeds_limit max_str_digits n = (0 < max_str_digits \<and> max_str_digits < n)"

fun decimal_digits :: "nat \<Rightarrow> nat" where
  "decimal_digits n = (if n < 10 then 1 else Suc (decimal_digits (n div 10)))"

declare decimal_digits.simps [simp del]

subsection \<open>The five terms of the score\<close>

definition impact_points :: "string \<Rightarrow> int" where
  "impact_points impact =
     (if impact = ''Low'' then 5
      else if impact = ''Medium'' then 15
      else if impact = ''High'' then 30
      else if impact = ''Critical'' then 40
      else 15)"

definition urgency_points ::
  "(string \<Rightarrow> int option) \<Rightarrow> int \<Rightarrow> string option \<Rightarrow> int \<Rightarrow> py_error + rat" where
  "urgency_points parse today due days_window =
     (case due of
        None \<Rightarrow> Inr 0
      | Some d \<Rightarrow>
          if d = [] then Inr 0
          else (case parse d of
                  None \<Rightarrow> Inr 0
                | Some due_dt \<Rightarrow>
                    let days_left = due_dt - today in
                    if days_left \<le> 0 then Inr 30
                    else if days_window = 0 then Inl ZeroDivisionError
                    else
                      let score = max 0 (30 * (1 - (of_int days_left / of_int days_window)))
                      in Inr (min 30 score)))"

definition info_points :: "string list \<Rightarrow> string list \<Rightarrow> rat" where
  "info_points required received =
     (if required = [] then 0
      else
        let got = card (set (map strip_lower received) \<inter> set (map strip_lower required));
            ratio = of_nat got / of_nat (max 1 (length required))
        in 40 * ratio)"

definition effort_penalty :: "int \<Rightarrow> rat" where
  "effort_penalty eff = (let e = max 1 (min 8 eff) in - (3 / 2) * of_int (e - 1))"

definition blocked_penalty :: "string \<Rightarrow> bool \<Rightarrow> rat" where
  "blocked_penalty st deps_open = (if st = ''Blocked'' \<or> deps_open then - 25 else 0)"

definition label_from_score :: "rat \<Rightarrow> string" where
  "label_from_score score =
     (if score \<ge> 80 then ''P1''
      else if score \<ge> 60 then ''P2''
      else if score \<ge> 40 then ''P3''
      else ''P4'')"

subsection \<open>Open dependencies\<close>

text \<open>
  The set comprehension
  \<^verbatim>\<open>set(int(d) for d in deps if str(d).isdigit() or isinstance(d, int))\<close>,
  element by element. \<open>dep_raises\<close> says whether the element raises \<^verbatim>\<open>ValueError\<close>:
  \<^verbatim>\<open>str(d)\<close> does for an integer with too many digits, and \<^verbatim>\<open>int(d)\<close> does for
  a string that \<^verbatim>\<open>isdigit\<close> accepts and that has a digit that is not decimal, or
  too many digits. \<open>dep_kept\<close> is the filter and \<open>dep_int\<close> the converted value where
  nothing raises.
\<close>

fun dep_raises :: "nat \<Rightarrow> dep \<Rightarrow> bool" where
  "dep_raises max_str_digits (DInt i) = exceeds_limit max_str_digits (decimal_digits (nat \<bar>i\<bar>))"
| "dep_raises max_str_digits (DStr s) =
     (if isdigit s
      then (if list_all isdecimal_char s then exceeds_limit max_str_digits (length s) else True)
      else False)"

fun dep_kept :: "dep \<Rightarrow> bool" where
  "dep_kept (DInt i) = True"
| "dep_kept (DStr s) = isdigit s"

fun dep_int :: "dep \<Rightarrow> int" where
  "dep_int (DInt i) = i"
| "dep_int (DStr s) = int_of_digits s"

fun dep_ids :: "nat \<Rightarrow> dep list \<Rightarrow> py_error + int set" where
  "dep_ids max_str_digits [] = Inr {}"
| "dep_ids max_str_digits (d # deps) =
     (if dep_raises max_str_digits d then Inl ValueError
      else (case dep_ids max_str_digits deps of
              Inl e \<Rightarrow> Inl e
            | Inr ids \<Rightarrow> Inr (if dep_kept d then insert (dep_int d) ids else ids)))"

text \<open>The loop over the rows of \<^verbatim>\<open>tasks_df\<close>, which discards from \<open>open_ids\<close>.\<close>

fun discard_done :: "int set \<Rightarrow> int set \<Rightarrow> task list \<Rightarrow> int set" where
  "discard_done ids open_ids [] = open_ids"
| "discard_done ids open_ids (dep_row # rest) =
     discard_done ids
       (if id dep_row \<in> ids \<and> status dep_row = Some ''Done''
        then open_ids - {id dep_row} else open_ids)
       rest"

definition deps_open :: "nat \<Rightarrow> dep list \<Rightarrow> task list \<Rightarrow> py_error + bool" where
  "deps_open max_str_digits deps tasks_df =
     (if deps \<noteq> []
      then (case dep_ids max_str_digits deps of
              Inl e \<Rightarrow> Inl e
            | Inr ids \<Rightarrow> Inr (card (discard_done ids ids tasks_df) > 0))
      else Inr False)"

subsection \<open>recalc\_priority\<close>

definition info_ratio :: "string list \<Rightarrow> string list \<Rightarrow> rat" where
  "info_ratio required received =
     (if required = [] then 0
      else min 1 (of_nat (card (set (map lower received) \<inter> set (map lower required)))
                  / of_nat (length required)))"

definition get_or :: "'a option \<Rightarrow> 'a \<Rightarrow> 'a" where
  "get_or v d = (case v of None \<Rightarrow> d | Some x \<Rightarrow> x)"

text \<open>
  The open dependencies are computed first (lines 148 to 155), so an element of
  \<^verbatim>\<open>dependencies\<close> that raises does so before the urgency term is computed.
\<close>

definition recalc_priority ::
  "nat \<Rightarrow> (string \<Rightarrow> int option) \<Rightarrow> int \<Rightarrow> task \<Rightarrow> task list \<Rightarrow> int
     \<Rightarrow> py_error + (rat \<times> string \<times> string \<times> bool)" where
  "recalc_priority max_str_digits parse today row tasks_df days_window =
     (let required = get_or (required_info row) [];
          received = get_or (received_info row) [];
          deps = get_or (dependencies row) []
      in case deps_open max_str_digits deps tasks_df of
           Inl e \<Rightarrow> Inl e
         | Inr dopen \<Rightarrow>
             let base = impact_points (get_or (business_impact row) ''Medium'')
             in case urgency_points parse today (due_date row) days_window of
                  Inl e \<Rightarrow> Inl e
                | Inr urgency \<Rightarrow>
                    let info = info_points required received;
                        effort_pen = effort_penalty (get_or (effort row) 3);
                        blocked_pen = blocked_penalty (get_or (status row) ''Backlog'') dopen;
                        score = max 0 (min 100 (of_int base + urgency + info + effort_pen + blocked_pen));
                        label = label_from_score score;
                        status0 = get_or (status row) ''Backlog'';
                        ratio = info_ratio required received;
                        status1 = (if status0 = ''Waiting Info'' \<and> ratio \<ge> 1 then ''Backlog'' else status0);
                        status2 = (if dopen \<and> status1 \<noteq> ''Done'' \<and> status1 \<noteq> ''Blocked''
                                   then ''Blocked'' else status1);
                        escalated = (label = ''P1'' \<and> ratio \<ge> 1)
                    in Inr (score, label, status2, escalated))"

subsection \<open>top5\<close>

text \<open>
  \<^verbatim>\<open>sort_values\<close> on two columns is a stable sort on the pair of keys, the label
  ascending in the order of strings and the score descending; \<^verbatim>\<open>head(5)\<close> keeps the
  first five rows, and the selection keeps seven columns.
\<close>

type_synonym top_row = "int \<times> string \<times> string \<times> string option \<times> string \<times> rat \<times> string option"

definition top_columns :: "task \<Rightarrow> top_row" where
  "top_columns t = (id t, title t, category t, status t, priority_label t, priority_score t, due_date t)"

definition top5 :: "task list \<Rightarrow> top_row list" where
  "top5 df =
     (if df = [] then []
      else map top_columns (take 5 (sort_key (\<lambda>t. (priority_label t, - priority_score t)) df)))"

subsection \<open>Example inputs\<close>

text \<open>The task of the worked examples: Critical, two required items, one received, effort 3.\<close>

definition example_task :: task where
  "example_task = \<lparr>id = 1, title = ''Report'', description = [], status = Some ''Backlog'',
     category = ''Trabajo'', due_date = Some ''2025-08-15'', required_info = Some [''x'', ''y''],
     received_info = Some [''x''], business_impact = Some ''Critical'', effort = Some 3,
     dependencies = Some [], priority_label = ''P4'', priority_score = 0, last_updated = None,
     tags = []\<rparr>"

text \<open>A task that waits for information and requires none.\<close>

definition waiting_task :: task where
  "waiting_task = example_task\<lparr>status := Some ''Waiting Info'', required_info := Some [],
     received_info := Some [], effort := Some 1\<rparr>"

text \<open>A task that waits for the item \<open>x\<close> and has received it with a leading blank.\<close>

definition padded_task :: task where
  "padded_task = example_task\<lparr>status := Some ''Waiting Info'', required_info := Some [''x''],
     received_info := Some ['' x''], effort := Some 1\<rparr>"

text \<open>A task that depends on task 1 and on task 7, and a finished task 1.\<close>

definition dependent_task :: task where
  "dependent_task = example_task\<lparr>id := 2, dependencies := Some [DInt 1, DStr ''7'']\<rparr>"

definition done_task :: task where
  "done_task = example_task\<lparr>status := Some ''Done''\<rparr>"

text \<open>A parser that knows one date, day 20, and raises on every other string.\<close>

definition example_parse :: "string \<Rightarrow> int option" where
  "example_parse s = (if s = ''2025-08-15'' then Some 20 else None)"

text \<open>A task whose only dependency is the string made of the superscript two.\<close>

definition superscript_task :: task where
  "superscript_task = example_task\<lparr>dependencies := Some [DStr [CHR 0xB2]]\<rparr>"

text \<open>Four rows with labels P2, P1, P1, P3 and scores 50, 90, 70, 10.\<close>

definition ranked :: "int \<Rightarrow> string \<Rightarrow> rat \<Rightarrow> task" where
  "ranked i l s = example_task\<lparr>id := i, priority_label := l, priority_score := s\<rparr>"

definition ranked_tasks :: "task list" where
  "ranked_tasks = [ranked 1 ''P2'' 50, ranked 2 ''P1'' 90, ranked 3 ''P1'' 70, ranked 4 ''P3'' 10]"

section \<open>Properties\<close>

subsection \<open>Auxiliary facts\<close>

lemma urgency_points_returns:
  "days_window \<noteq> 0 \<Longrightarrow> \<exists>u. urgency_points parse today due days_window = Inr u"
  by (simp add: urgency_points_def Let_def split: option.splits)

lemma urgency_points_range:
  "urgency_points parse today due days_window = Inr u \<Longrightarrow> 0 \<le> u \<and> u \<le> 30"
  by (auto simp: urgency_points_def Let_def split: option.splits if_splits)

text \<open>What the function returns, term by term, once it returns.\<close>

lemma recalc_priority_Inr:
  assumes "recalc_priority max_str_digits parse today row tasks_df days_window = Inr (sc, lb, st, es)"
  obtains dopen u where
    "deps_open max_str_digits (get_or (dependencies row) []) tasks_df = Inr dopen"
    "urgency_points parse today (due_date row) days_window = Inr u"
    "sc = max 0 (min 100 (of_int (impact_points (get_or (business_impact row) ''Medium'')) + u
            + info_points (get_or (required_info row) []) (get_or (received_info row) [])
            + effort_penalty (get_or (effort row) 3)
            + blocked_penalty (get_or (status row) ''Backlog'') dopen))"
    "lb = label_from_score sc"
    "st = (let s1 = (if get_or (status row) ''Backlog'' = ''Waiting Info''
                        \<and> info_ratio (get_or (required_info row) []) (get_or (received_info row) []) \<ge> 1
                     then ''Backlog'' else get_or (status row) ''Backlog'')
           in if dopen \<and> s1 \<noteq> ''Done'' \<and> s1 \<noteq> ''Blocked'' then ''Blocked'' else s1)"
    "es = (lb = ''P1'' \<and> info_ratio (get_or (required_info row) []) (get_or (received_info row) []) \<ge> 1)"
  using assms
  by (auto simp: recalc_priority_def Let_def split: sum.splits)

lemma label_from_score_step:
  "label_from_score sc =
     (if 80 \<le> sc then ''P1'' else if 60 \<le> sc then ''P2'' else if 40 \<le> sc then ''P3'' else ''P4'')"
  by (simp add: label_from_score_def)

lemma impact_points_le: "impact_points s \<le> 40"
  by (simp add: impact_points_def)

lemma effort_penalty_le: "effort_penalty e \<le> 0"
  by (simp add: effort_penalty_def Let_def)

lemma blocked_penalty_le: "blocked_penalty s b \<le> 0"
  by (simp add: blocked_penalty_def)

lemma info_points_Nil: "info_points [] received = 0"
  by (simp add: info_points_def)

lemma info_ratio_Nil: "info_ratio [] received = 0"
  by (simp add: info_ratio_def)

lemma impact_points_Critical: "impact_points ''Critical'' = 40"
  by (simp add: impact_points_def)

lemma effort_penalty_3: "effort_penalty 3 = - 3"
  by (simp add: effort_penalty_def Let_def)

lemma info_xy_x: "info_points [''x'', ''y''] [''x''] = 20 \<and> info_ratio [''x'', ''y''] [''x''] = 1 / 2"
  by code_simp

lemma info_xy_xy: "info_points [''x'', ''y''] [''x'', ''y''] = 40 \<and> info_ratio [''x'', ''y''] [''x'', ''y''] = 1"
  by code_simp

text \<open>The loop removes from \<open>open_ids\<close> exactly the wanted ids that have a Done row.\<close>

lemma discard_done_eq:
  "discard_done ids open_ids tasks_df =
     open_ids - {i. i \<in> ids \<and> (i, Some ''Done'') \<in> set (map (\<lambda>t. (id t, status t)) tasks_df)}"
proof (induction tasks_df arbitrary: open_ids)
  case Nil
  show ?case by simp
next
  case (Cons t ts)
  show ?case
    by (simp only: discard_done.simps Cons.IH) auto
qed

lemma deps_open_Nil: "deps_open max_str_digits [] tasks_df = Inr False"
  by (simp add: deps_open_def)

lemma dep_ids_Inr:
  "dep_ids max_str_digits deps = Inr ids \<Longrightarrow> ids = dep_int ` {d \<in> set deps. dep_kept d}"
  by (induction deps arbitrary: ids) (auto split: if_splits sum.splits)

lemma deps_open_Inr:
  assumes "deps_open max_str_digits deps tasks_df = Inr dopen"
  shows "dopen \<longleftrightarrow> (\<exists>d \<in> set deps. dep_kept d
            \<and> (dep_int d, Some ''Done'') \<notin> set (map (\<lambda>t. (id t, status t)) tasks_df))"
proof (cases "deps = []")
  case True
  then show ?thesis using assms by (simp add: deps_open_def)
next
  case False
  then obtain ids where ids: "dep_ids max_str_digits deps = Inr ids"
    and d: "dopen = (card (discard_done ids ids tasks_df) > 0)"
    using assms by (auto simp: deps_open_def split: sum.splits)
  have eq: "ids = dep_int ` {d \<in> set deps. dep_kept d}"
    using ids by (rule dep_ids_Inr)
  then have "finite ids" by simp
  then have "finite (discard_done ids ids tasks_df)"
    by (simp add: discard_done_eq)
  then have "dopen \<longleftrightarrow> discard_done ids ids tasks_df \<noteq> {}"
    by (simp add: d card_gt_0_iff)
  also have "\<dots> \<longleftrightarrow> (\<exists>d \<in> set deps. dep_kept d
            \<and> (dep_int d, Some ''Done'') \<notin> set (map (\<lambda>t. (id t, status t)) tasks_df))"
    unfolding discard_done_eq eq by blast
  finally show ?thesis .
qed

lemma deps_open_cong:
  "map (\<lambda>t. (id t, status t)) ts1 = map (\<lambda>t. (id t, status t)) ts2 \<Longrightarrow>
     deps_open max_str_digits deps ts1 = deps_open max_str_digits deps ts2"
  by (simp add: deps_open_def discard_done_eq split: sum.splits)

lemma deps_open_intro:
  assumes "deps_open max_str_digits deps tasks_df = Inr dopen"
    and "d \<in> set deps" and "dep_kept d"
    and "\<not> (\<exists>t \<in> set tasks_df. id t = dep_int d \<and> status t = Some ''Done'')"
  shows "dopen"
proof -
  have "(dep_int d, Some ''Done'') \<notin> set (map (\<lambda>t. (id t, status t)) tasks_df)"
    using assms(4) by auto
  then show ?thesis
    unfolding deps_open_Inr [OF assms(1)] using assms(2,3) by blast
qed

lemma example_task_result:
  "recalc_priority 4300 (\<lambda>s. Some 0) 0 example_task [] 14 = Inr (87, ''P1'', ''Backlog'', False)"
  by code_simp

lemma waiting_task_result:
  "recalc_priority 4300 (\<lambda>s. Some 0) 0 waiting_task [] 14 = Inr (70, ''P2'', ''Waiting Info'', False)"
  by code_simp

lemma dependent_task_result:
  "recalc_priority 4300 (\<lambda>s. Some 0) 0 dependent_task [done_task] 14 = Inr (62, ''P2'', ''Blocked'', False)"
  by code_simp

lemma superscript_isdigit:
  "isdigit [CHR 0xB2]" "\<not> isdecimal_char (CHR 0xB2)"
  by code_simp+

lemma ramp_nonpos: "(1 :: rat) \<le> x \<Longrightarrow> 30 * (1 - x) \<le> 0"
  by simp

lemma ramp_antimono: "(x :: rat) \<le> y \<Longrightarrow> 30 * (1 - y) \<le> 30 * (1 - x)"
  by simp

lemma urgency_points_ramp:
  assumes "d \<noteq> []" and "parse d = Some due_dt" and "0 < due_dt - today" and "days_window \<noteq> 0"
  shows "urgency_points parse today (Some d) days_window
          = Inr (min 30 (max 0 (30 * (1 - of_int (due_dt - today) / of_int days_window))))"
  using assms by (simp add: urgency_points_def Let_def)

lemma example_parse_simps:
  "example_parse ''2025-08-15'' = Some 20" "example_parse ''soon'' = None"
  by (simp_all add: example_parse_def)

lemma label_order: "(''P1'' :: string) < ''P2''" "(''P2'' :: string) < ''P3''" "(''P3'' :: string) < ''P4''"
  by code_simp+

lemma key_le_iff:
  "(priority_label a, - priority_score a) \<le> (priority_label b, - priority_score b) \<longleftrightarrow>
     priority_label a < priority_label b
     \<or> (priority_label a = priority_label b \<and> priority_score b \<le> priority_score a)"
  by (auto simp: less_eq_prod_def)

lemma sorted_by_label_score:
  "sorted_wrt (\<lambda>a b. priority_label a < priority_label b
       \<or> (priority_label a = priority_label b \<and> priority_score b \<le> priority_score a))
     (sort_key (\<lambda>t. (priority_label t, - priority_score t)) df)"
proof -
  have "sorted (map (\<lambda>t. (priority_label t, - priority_score t))
          (sort_key (\<lambda>t. (priority_label t, - priority_score t)) df))"
    by (rule sorted_sort_key)
  then have "sorted_wrt (\<lambda>a b. (priority_label a, - priority_score a) \<le> (priority_label b, - priority_score b))
          (sort_key (\<lambda>t. (priority_label t, - priority_score t)) df)"
    by (simp only: sorted_map)
  then show ?thesis by (simp only: key_le_iff)
qed

text \<open>Without dependencies no conversion is made, and the limit on digits plays no part.\<close>

lemma recalc_priority_no_deps:
  "get_or (dependencies row) [] = [] \<Longrightarrow>
     recalc_priority max_str_digits parse today row tasks_df days_window
       = recalc_priority 0 parse today row tasks_df days_window"
  by (simp add: recalc_priority_def deps_open_Nil)

subsection \<open>Empty required information (C1)\<close>

text \<open>
  Claim C1, as stated, at a concrete input: a task with status Waiting Info and no required
  information. The source sets \<^verbatim>\<open>info_ratio\<close> to 0.0 for it, not 1.0, and the
  returned status is still Waiting Info, not Backlog.
\<close>

theorem empty_required_counterexample:
  "get_or (required_info waiting_task) [] = []
   \<and> status waiting_task = Some ''Waiting Info''
   \<and> info_ratio (get_or (required_info waiting_task) []) (get_or (received_info waiting_task) []) = 0
   \<and> recalc_priority 4300 (\<lambda>s. Some 0) 0 waiting_task [] 14 = Inr (70, ''P2'', ''Waiting Info'', False)"
  by code_simp

text \<open>
  Claim C1, amended. When \<^verbatim>\<open>required_info\<close> is empty (or absent) the computed
  \<^verbatim>\<open>info_ratio\<close> is 0. Consequently, whenever \<open>recalc_priority\<close> returns for such a
  task, (a) an input status Waiting Info is returned unchanged, or as Blocked when a
  dependency is open, and never as Backlog; (b) escalated is false, and the label is never
  P1 (information points are 0, so the score is at most 70).
\<close>

theorem recalc_priority_empty_required:
  assumes "get_or (required_info row) [] = []"
  shows "info_ratio (get_or (required_info row) []) (get_or (received_info row) []) = 0
       \<and> (recalc_priority max_str_digits parse today row tasks_df days_window = Inr (sc, lb, st, es) \<longrightarrow>
            \<not> es \<and> lb \<noteq> ''P1''
            \<and> (get_or (status row) ''Backlog'' = ''Waiting Info'' \<longrightarrow>
                 st = (if deps_open max_str_digits (get_or (dependencies row) []) tasks_df = Inr True
                       then ''Blocked'' else ''Waiting Info'')))"
proof (intro conjI impI)
  show "info_ratio (get_or (required_info row) []) (get_or (received_info row) []) = 0"
    by (simp add: assms info_ratio_Nil)
next
  assume r: "recalc_priority max_str_digits parse today row tasks_df days_window = Inr (sc, lb, st, es)"
  from r obtain dopen u where
    dopen: "deps_open max_str_digits (get_or (dependencies row) []) tasks_df = Inr dopen"
    and u: "urgency_points parse today (due_date row) days_window = Inr u"
    and sc: "sc = max 0 (min 100 (of_int (impact_points (get_or (business_impact row) ''Medium'')) + u
            + info_points (get_or (required_info row) []) (get_or (received_info row) [])
            + effort_penalty (get_or (effort row) 3)
            + blocked_penalty (get_or (status row) ''Backlog'') dopen))"
    and lb: "lb = label_from_score sc"
    and st: "st = (let s1 = (if get_or (status row) ''Backlog'' = ''Waiting Info''
                        \<and> info_ratio (get_or (required_info row) []) (get_or (received_info row) []) \<ge> 1
                     then ''Backlog'' else get_or (status row) ''Backlog'')
           in if dopen \<and> s1 \<noteq> ''Done'' \<and> s1 \<noteq> ''Blocked'' then ''Blocked'' else s1)"
    and es: "es = (lb = ''P1'' \<and> info_ratio (get_or (required_info row) []) (get_or (received_info row) []) \<ge> 1)"
    by (rule recalc_priority_Inr)
  show "\<not> es" by (simp add: es assms info_ratio_Nil)
  have "u \<le> 30" using urgency_points_range [OF u] by simp
  moreover have "(of_int (impact_points (get_or (business_impact row) ''Medium'')) :: rat) \<le> 40"
    using impact_points_le [of "get_or (business_impact row) ''Medium''"] by linarith
  moreover note effort_penalty_le [of "get_or (effort row) 3"]
    blocked_penalty_le [of "get_or (status row) ''Backlog''" dopen]
  ultimately have "sc \<le> 70"
    by (simp add: sc assms info_points_Nil)
  then show "lb \<noteq> ''P1''"
    by (simp add: lb label_from_score_def)
  show "st = (if deps_open max_str_digits (get_or (dependencies row) []) tasks_df = Inr True
              then ''Blocked'' else ''Waiting Info'')"
    if "get_or (status row) ''Backlog'' = ''Waiting Info''"
    using that by (simp add: st dopen assms info_ratio_Nil)
qed

theorem recalc_priority_empty_required_witness:
  "get_or (required_info waiting_task) [] = []
   \<and> get_or (status waiting_task) ''Backlog'' = ''Waiting Info''
   \<and> recalc_priority 4300 (\<lambda>s. Some 0) 0 waiting_task [] 14 = Inr (70, ''P2'', ''Waiting Info'', False)
   \<and> deps_open 4300 (get_or (dependencies waiting_task) []) [] = Inr False
   \<and> ''P2'' \<noteq> ''P1''"
proof -
  have h: "get_or (required_info waiting_task) [] = []"
    by (simp add: waiting_task_def example_task_def get_or_def)
  have s: "get_or (status waiting_task) ''Backlog'' = ''Waiting Info''"
    by (simp add: waiting_task_def example_task_def get_or_def)
  from recalc_priority_empty_required
    [OF h, where max_str_digits = 4300 and parse = "\<lambda>s. Some 0" and today = 0
       and tasks_df = "[]" and days_window = 14 and sc = 70 and lb = "''P2''"
       and st = "''Waiting Info''" and es = False] waiting_task_result s h
  show ?thesis by (simp add: waiting_task_def example_task_def get_or_def deps_open_Nil)
qed

subsection \<open>The two intersections (C2)\<close>

text \<open>
  Claim C2, evaluated at the required item x received as x with a leading blank.
  \<^verbatim>\<open>_info_points\<close> strips and lower-cases both sides and awards the full 40 points;
  the expression for \<^verbatim>\<open>info_ratio\<close> in \<open>recalc_priority\<close> only lower-cases, finds
  no common item and gives 0. So a Critical task due today in status Waiting Info scores
  100 with label P1, and still is neither released to Backlog nor escalated.
\<close>

theorem info_ratio_without_strip:
  "info_points [''x''] ['' x''] = 40
   \<and> info_ratio [''x''] ['' x''] = 0
   \<and> recalc_priority max_str_digits (\<lambda>s. Some 0) 0 padded_task [] 14
       = Inr (100, ''P1'', ''Waiting Info'', False)"
proof -
  have "get_or (dependencies padded_task) [] = []"
    by (simp add: padded_task_def example_task_def get_or_def)
  then have "recalc_priority max_str_digits (\<lambda>s. Some 0) 0 padded_task [] 14
       = recalc_priority 0 (\<lambda>s. Some 0) 0 padded_task [] 14"
    by (rule recalc_priority_no_deps)
  moreover have "recalc_priority 0 (\<lambda>s. Some 0) 0 padded_task [] 14
       = Inr (100, ''P1'', ''Waiting Info'', False)"
    by code_simp
  moreover have "info_points [''x''] ['' x''] = 40" "info_ratio [''x''] ['' x''] = 0"
    by code_simp+
  ultimately show ?thesis by simp
qed

subsection \<open>Information-readiness points (C3)\<close>

text \<open>
  Claim C3, as stated, at two concrete inputs where the received items are a superset of
  the required ones after trimming and lower-casing and the points are not 40: the
  required list x, x with x received gets 20 points (one common item over a list of
  length two), and an empty required list gets 0.
\<close>

theorem info_points_superset_counterexample:
  "set (map strip_lower [''x'', ''x'']) \<subseteq> set (map strip_lower [''x''])
   \<and> info_points [''x'', ''x''] [''x''] = 20
   \<and> set (map strip_lower []) \<subseteq> set (map strip_lower [''x''])
   \<and> info_points [] [''x''] = 0"
  by code_simp

text \<open>
  Claim C3, amended. Information-readiness points are 0 when \<^verbatim>\<open>required_info\<close> is
  empty; otherwise they are 40 times the number of distinct trimmed, lower-cased items
  common to both lists, divided by the length of the required list; and they are exactly
  40 when the required list is non-empty, has no two items equal after trimming and
  lower-casing, and every such item is among the received ones.
\<close>

theorem info_points_ratio:
  "info_points [] received = 0
   \<and> (required \<noteq> [] \<longrightarrow>
        info_points required received
          = 40 * (of_nat (card (set (map strip_lower required) \<inter> set (map strip_lower received)))
                  / of_nat (length required)))
   \<and> (required \<noteq> [] \<and> distinct (map strip_lower required)
        \<and> set (map strip_lower required) \<subseteq> set (map strip_lower received) \<longrightarrow>
        info_points required received = 40)"
proof (intro conjI impI)
  show "info_points [] received = 0" by (rule info_points_Nil)
next
  assume ne: "required \<noteq> []"
  then have "max 1 (length required) = length required"
    by (cases required) simp_all
  then show "info_points required received
          = 40 * (of_nat (card (set (map strip_lower required) \<inter> set (map strip_lower received)))
                  / of_nat (length required))"
    using ne by (simp add: info_points_def Let_def Int_commute)
next
  assume a: "required \<noteq> [] \<and> distinct (map strip_lower required)
        \<and> set (map strip_lower required) \<subseteq> set (map strip_lower received)"
  then have ne: "required \<noteq> []" and d: "distinct (map strip_lower required)"
    and sub: "set (map strip_lower required) \<subseteq> set (map strip_lower received)"
    by simp_all
  have len: "max 1 (length required) = length required"
    using ne by (cases required) simp_all
  have "set (map strip_lower received) \<inter> set (map strip_lower required)
          = set (map strip_lower required)"
    using sub by blast
  then have got: "card (set (map strip_lower received) \<inter> set (map strip_lower required))
          = length required"
    using distinct_card [OF d] by simp
  have pos: "(of_nat (length required) :: rat) \<noteq> 0" using ne by simp
  have "info_points required received
          = 40 * (of_nat (length required) / of_nat (max 1 (length required)))"
    using ne by (simp only: info_points_def Let_def got if_False)
  also have "\<dots> = 40 * (of_nat (length required) / of_nat (length required))"
    by (simp only: len)
  also have "\<dots> = 40"
    using pos by simp
  finally show "info_points required received = 40" .
qed

theorem info_points_ratio_witness:
  "[''Budget '', ''plan''] \<noteq> []
   \<and> distinct (map strip_lower [''Budget '', ''plan''])
   \<and> set (map strip_lower [''Budget '', ''plan'']) \<subseteq> set (map strip_lower ['' PLAN'', ''budget'', ''z''])
   \<and> info_points [''Budget '', ''plan''] ['' PLAN'', ''budget'', ''z''] = 40
   \<and> card (set (map strip_lower [''Budget '', ''plan'']) \<inter> set (map strip_lower ['' PLAN'', ''budget'', ''z''])) = 2"
proof -
  have 1: "distinct (map strip_lower [''Budget '', ''plan''])" by code_simp
  have 2: "set (map strip_lower [''Budget '', ''plan'']) \<subseteq> set (map strip_lower ['' PLAN'', ''budget'', ''z''])"
    by code_simp
  have 3: "card (set (map strip_lower [''Budget '', ''plan'']) \<inter> set (map strip_lower ['' PLAN'', ''budget'', ''z''])) = 2"
    by code_simp
  from info_points_ratio [of "['' PLAN'', ''budget'', ''z'']" "[''Budget '', ''plan'']"] 1 2 3
  show ?thesis by simp
qed

subsection \<open>Malformed and missing inputs (C4)\<close>

text \<open>
  Claim C4, evaluated at a task whose list of dependencies holds the string made of the
  superscript two. The filter of line 150 keeps the element, since \<^verbatim>\<open>str.isdigit\<close>
  accepts the superscript, and the conversion \<^verbatim>\<open>int(d)\<close> of the same line raises
  \<^verbatim>\<open>ValueError\<close>, which nothing catches: \<open>recalc_priority\<close> returns no tuple,
  whatever the other fields, the task table, the date and the window are.
\<close>

theorem recalc_priority_superscript_dependency:
  "dependencies superscript_task = Some [DStr [CHR 0xB2]]
   \<and> dep_kept (DStr [CHR 0xB2])
   \<and> recalc_priority max_str_digits parse today superscript_task tasks_df days_window
       = Inl ValueError"
proof -
  have d: "dependencies superscript_task = Some [DStr [CHR 0xB2]]"
    by (simp add: superscript_task_def)
  then have "deps_open max_str_digits (get_or (dependencies superscript_task) []) tasks_df
               = Inl ValueError"
    by (simp add: deps_open_def get_or_def superscript_isdigit)
  then have "recalc_priority max_str_digits parse today superscript_task tasks_df days_window
       = Inl ValueError"
    by (simp add: recalc_priority_def)
  with d show ?thesis by (simp add: superscript_isdigit)
qed

subsection \<open>The worked examples (C5)\<close>

text \<open>
  Claim C5. A Critical task due today (the parser gives today's day number) with
  required items x and y, effort 3, no dependencies and status Backlog gets score 87,
  label P1, status Backlog and is not escalated when only x has been received; when x and
  y have been received it gets score 100, label P1, status Backlog and is escalated, the
  unclamped sum of the five terms being 107. This holds for every task table and every
  window, since a task due today never reaches the division by the window.
\<close>

theorem recalc_priority_worked_examples:
  assumes "business_impact row = Some ''Critical''"
    and "due_date row = Some d" and "d \<noteq> []" and "parse d = Some today"
    and "required_info row = Some [''x'', ''y'']"
    and "effort row = Some 3"
    and "dependencies row = Some []"
    and "status row = Some ''Backlog''"
  shows "recalc_priority max_str_digits parse today (row\<lparr>received_info := Some [''x'']\<rparr>) tasks_df days_window
           = Inr (87, ''P1'', ''Backlog'', False)
       \<and> recalc_priority max_str_digits parse today (row\<lparr>received_info := Some [''x'', ''y'']\<rparr>) tasks_df days_window
           = Inr (100, ''P1'', ''Backlog'', True)
       \<and> of_int (impact_points ''Critical'') + 30 + info_points [''x'', ''y''] [''x'', ''y'']
           + effort_penalty 3 + blocked_penalty ''Backlog'' False = (107 :: rat)"
proof -
  have u: "urgency_points parse today (Some d) days_window = Inr 30"
    using assms(3,4) by (simp add: urgency_points_def)
  have b: "blocked_penalty ''Backlog'' False = 0"
    by (simp add: blocked_penalty_def)
  have l: "label_from_score 87 = ''P1''" "label_from_score 100 = ''P1''"
    by (simp_all add: label_from_score_def)
  have 1: "recalc_priority max_str_digits parse today (row\<lparr>received_info := Some [''x'']\<rparr>) tasks_df days_window
           = Inr (87, ''P1'', ''Backlog'', False)"
    using assms u b l info_xy_x
    by (simp add: recalc_priority_def Let_def get_or_def deps_open_Nil impact_points_Critical
        effort_penalty_3)
  have 2: "recalc_priority max_str_digits parse today (row\<lparr>received_info := Some [''x'', ''y'']\<rparr>) tasks_df days_window
           = Inr (100, ''P1'', ''Backlog'', True)"
    using assms u b l info_xy_xy
    by (simp add: recalc_priority_def Let_def get_or_def deps_open_Nil impact_points_Critical
        effort_penalty_3)
  have 3: "of_int (impact_points ''Critical'') + 30 + info_points [''x'', ''y''] [''x'', ''y'']
           + effort_penalty 3 + blocked_penalty ''Backlog'' False = (107 :: rat)"
    using b info_xy_xy by (simp add: impact_points_Critical effort_penalty_3)
  from 1 2 3 show ?thesis by blast
qed

theorem recalc_priority_worked_examples_witness:
  "recalc_priority 4300 (\<lambda>s. Some 0) 0 (example_task\<lparr>received_info := Some [''x'']\<rparr>) [] 14
           = Inr (87, ''P1'', ''Backlog'', False)
   \<and> recalc_priority 4300 (\<lambda>s. Some 0) 0 (example_task\<lparr>received_info := Some [''x'', ''y'']\<rparr>) [] 14
           = Inr (100, ''P1'', ''Backlog'', True)"
  using recalc_priority_worked_examples
    [where row = example_task and d = "''2025-08-15''" and parse = "\<lambda>s. Some 0" and today = 0
       and max_str_digits = 4300 and tasks_df = "[]" and days_window = 14]
  by (simp add: example_task_def)

subsection \<open>Open dependencies block (C6)\<close>

text \<open>
  Claim C6. A dependency id is an element of \<^verbatim>\<open>dependencies\<close> that the source's filter
  keeps (an integer or a string of digits); it is open unless a row of \<^verbatim>\<open>tasks_df\<close>
  has that id and status Done, so an id with no row is open. Whenever \<open>recalc_priority\<close>
  returns for a task whose input status is not Done and that has an open dependency, the
  returned status is Blocked; a task with input status Done is returned with status Done.
\<close>

theorem recalc_priority_open_dependency_blocks:
  "(d \<in> set (get_or (dependencies row) []) \<and> dep_kept d
      \<and> \<not> (\<exists>t \<in> set tasks_df. id t = dep_int d \<and> status t = Some ''Done'')
      \<and> get_or (status row) ''Backlog'' \<noteq> ''Done''
      \<and> recalc_priority max_str_digits parse today row tasks_df days_window = Inr (sc, lb, st, es)
      \<longrightarrow> st = ''Blocked'')
   \<and> (get_or (status row) ''Backlog'' = ''Done''
      \<and> recalc_priority max_str_digits parse today row tasks_df days_window = Inr (sc, lb, st, es)
      \<longrightarrow> st = ''Done'')"
proof (intro conjI impI)
  assume a: "d \<in> set (get_or (dependencies row) []) \<and> dep_kept d
      \<and> \<not> (\<exists>t \<in> set tasks_df. id t = dep_int d \<and> status t = Some ''Done'')
      \<and> get_or (status row) ''Backlog'' \<noteq> ''Done''
      \<and> recalc_priority max_str_digits parse today row tasks_df days_window = Inr (sc, lb, st, es)"
  from a have r: "recalc_priority max_str_digits parse today row tasks_df days_window = Inr (sc, lb, st, es)"
    by simp
  from r obtain dopen u where
    dopen: "deps_open max_str_digits (get_or (dependencies row) []) tasks_df = Inr dopen"
    and st: "st = (let s1 = (if get_or (status row) ''Backlog'' = ''Waiting Info''
                        \<and> info_ratio (get_or (required_info row) []) (get_or (received_info row) []) \<ge> 1
                     then ''Backlog'' else get_or (status row) ''Backlog'')
           in if dopen \<and> s1 \<noteq> ''Done'' \<and> s1 \<noteq> ''Blocked'' then ''Blocked'' else s1)"
    by (rule recalc_priority_Inr)
  from a have nd: "get_or (status row) ''Backlog'' \<noteq> ''Done''" by simp
  from a have m: "d \<in> set (get_or (dependencies row) [])" and k: "dep_kept d"
    and o: "\<not> (\<exists>t \<in> set tasks_df. id t = dep_int d \<and> status t = Some ''Done'')"
    by simp_all
  have "dopen"
    by (rule deps_open_intro [OF dopen m k o])
  then show "st = ''Blocked''"
    using nd by (simp add: st Let_def)
next
  assume a: "get_or (status row) ''Backlog'' = ''Done''
      \<and> recalc_priority max_str_digits parse today row tasks_df days_window = Inr (sc, lb, st, es)"
  then have r: "recalc_priority max_str_digits parse today row tasks_df days_window = Inr (sc, lb, st, es)"
    by simp
  from r obtain dopen u where
    dopen: "deps_open max_str_digits (get_or (dependencies row) []) tasks_df = Inr dopen"
    and st: "st = (let s1 = (if get_or (status row) ''Backlog'' = ''Waiting Info''
                        \<and> info_ratio (get_or (required_info row) []) (get_or (received_info row) []) \<ge> 1
                     then ''Backlog'' else get_or (status row) ''Backlog'')
           in if dopen \<and> s1 \<noteq> ''Done'' \<and> s1 \<noteq> ''Blocked'' then ''Blocked'' else s1)"
    by (rule recalc_priority_Inr)
  from a show "st = ''Done''"
    by (simp add: st Let_def)
qed

theorem recalc_priority_open_dependency_blocks_witness:
  "DStr ''7'' \<in> set (get_or (dependencies dependent_task) []) \<and> dep_kept (DStr ''7'')
   \<and> dep_int (DStr ''7'') = 7
   \<and> \<not> (\<exists>t \<in> set [done_task]. id t = 7 \<and> status t = Some ''Done'')
   \<and> get_or (status dependent_task) ''Backlog'' \<noteq> ''Done''
   \<and> recalc_priority 4300 (\<lambda>s. Some 0) 0 dependent_task [done_task] 14 = Inr (62, ''P2'', ''Blocked'', False)"
proof -
  have 1: "DStr ''7'' \<in> set (get_or (dependencies dependent_task) [])"
    by (simp add: dependent_task_def example_task_def get_or_def)
  have 2: "dep_kept (DStr ''7'')" "dep_int (DStr ''7'') = 7" by code_simp+
  have 3: "\<not> (\<exists>t \<in> set [done_task]. id t = 7 \<and> status t = Some ''Done'')"
    by (simp add: done_task_def example_task_def)
  have 4: "get_or (status dependent_task) ''Backlog'' \<noteq> ''Done''"
    by (simp add: dependent_task_def example_task_def get_or_def)
  from recalc_priority_open_dependency_blocks
    [where d = "DStr ''7''" and row = dependent_task and tasks_df = "[done_task]"
       and max_str_digits = 4300 and parse = "\<lambda>s. Some 0" and today = 0 and days_window = 14
       and sc = 62 and lb = "''P2''" and st = "''Blocked''" and es = False]
    1 2 3 4 dependent_task_result
  show ?thesis by simp
qed

subsection \<open>Score range and label (C7)\<close>

text \<open>
  Claim C7. Whenever \<open>recalc_priority\<close> returns, the score lies between 0 and 100 and
  the label is the step function of that clamped score: P1 from 80, P2 from 60, P3 from
  40, P4 below.
\<close>

theorem recalc_priority_score_range_label_step:
  "(recalc_priority max_str_digits parse today row tasks_df days_window = Inr (sc, lb, st, es) \<longrightarrow>
      0 \<le> sc \<and> sc \<le> 100 \<and>
      lb = (if 80 \<le> sc then ''P1'' else if 60 \<le> sc then ''P2''
            else if 40 \<le> sc then ''P3'' else ''P4''))"
proof (intro conjI impI)
  assume r: "recalc_priority max_str_digits parse today row tasks_df days_window = Inr (sc, lb, st, es)"
  from r obtain dopen u where
    sc: "sc = max 0 (min 100 (of_int (impact_points (get_or (business_impact row) ''Medium'')) + u
            + info_points (get_or (required_info row) []) (get_or (received_info row) [])
            + effort_penalty (get_or (effort row) 3)
            + blocked_penalty (get_or (status row) ''Backlog'') dopen))"
    and lb: "lb = label_from_score sc"
    by (rule recalc_priority_Inr)
  show "0 \<le> sc" by (simp add: sc)
  show "sc \<le> 100" by (simp add: sc)
  show "lb = (if 80 \<le> sc then ''P1'' else if 60 \<le> sc then ''P2''
            else if 40 \<le> sc then ''P3'' else ''P4'')"
    by (simp only: lb label_from_score_step)
qed

theorem recalc_priority_score_range_label_step_witness:
  "recalc_priority 4300 (\<lambda>s. Some 0) 0 example_task [] 14 = Inr (87, ''P1'', ''Backlog'', False)
   \<and> (0 :: rat) \<le> 87 \<and> (87 :: rat) \<le> 100 \<and> (80 :: rat) \<le> 87"
  using recalc_priority_score_range_label_step
    [where max_str_digits = 4300 and parse = "\<lambda>s. Some 0" and today = 0
       and row = example_task and tasks_df = "[]" and days_window = 14
       and sc = 87 and lb = "''P1''" and st = "''Backlog''" and es = False]
    example_task_result
  by simp

subsection \<open>Urgency points (C8)\<close>

text \<open>
  Claim C8. Urgency points are 0 when the due date is absent, empty or unparseable; 30
  when \<open>days_left = due_dt - today\<close> is at most 0; otherwise (for a non-zero window) 30
  times \<open>1 - days_left / days_window\<close> clamped to the interval from 0 to 30. For a window
  of a positive number of days and a fixed due date they do not increase when
  \<open>days_left\<close> increases, and they are 0 once \<open>days_left\<close> reaches the window.
\<close>

theorem urgency_points_shape:
  "urgency_points parse today None days_window = Inr 0
   \<and> urgency_points parse today (Some []) days_window = Inr 0
   \<and> (parse bad = None \<longrightarrow> urgency_points parse today (Some bad) days_window = Inr 0)
   \<and> (d \<noteq> [] \<and> parse d = Some due_dt \<and> due_dt - today \<le> 0 \<longrightarrow>
        urgency_points parse today (Some d) days_window = Inr 30)
   \<and> (d \<noteq> [] \<and> parse d = Some due_dt \<and> 0 < due_dt - today \<and> days_window \<noteq> 0 \<longrightarrow>
        urgency_points parse today (Some d) days_window
          = Inr (min 30 (max 0 (30 * (1 - of_int (due_dt - today) / of_int days_window)))))
   \<and> (d \<noteq> [] \<and> parse d = Some due_dt \<and> due_dt - today1 \<le> due_dt - today2 \<and> 0 < days_window \<longrightarrow>
        (\<exists>u1 u2. urgency_points parse today1 (Some d) days_window = Inr u1
                \<and> urgency_points parse today2 (Some d) days_window = Inr u2 \<and> u2 \<le> u1))
   \<and> (d \<noteq> [] \<and> parse d = Some due_dt \<and> days_window \<le> due_dt - today \<and> 0 < days_window \<longrightarrow>
        urgency_points parse today (Some d) days_window = Inr 0)"
proof (intro conjI impI)
  show "urgency_points parse today None days_window = Inr 0"
    by (simp add: urgency_points_def)
  show "urgency_points parse today (Some []) days_window = Inr 0"
    by (simp add: urgency_points_def)
  show "urgency_points parse today (Some bad) days_window = Inr 0" if "parse bad = None"
    using that by (simp add: urgency_points_def)
  show "urgency_points parse today (Some d) days_window = Inr 30"
    if "d \<noteq> [] \<and> parse d = Some due_dt \<and> due_dt - today \<le> 0"
    using that by (simp add: urgency_points_def)
  show "urgency_points parse today (Some d) days_window
          = Inr (min 30 (max 0 (30 * (1 - of_int (due_dt - today) / of_int days_window))))"
    if "d \<noteq> [] \<and> parse d = Some due_dt \<and> 0 < due_dt - today \<and> days_window \<noteq> 0"
    using that by (simp add: urgency_points_def Let_def)
next
  assume a: "d \<noteq> [] \<and> parse d = Some due_dt \<and> days_window \<le> due_dt - today \<and> 0 < days_window"
  then have "(of_int days_window :: rat) \<le> of_int (due_dt - today)" and "(0 :: rat) < of_int days_window"
    by (simp_all only: of_int_le_iff of_int_0_less_iff)
  then have "1 \<le> (of_int (due_dt - today) :: rat) / of_int days_window"
    by (simp add: le_divide_eq)
  then have "30 * (1 - (of_int (due_dt - today) :: rat) / of_int days_window) \<le> 0"
    by (rule ramp_nonpos)
  then have "max 0 (30 * (1 - (of_int (due_dt - today) :: rat) / of_int days_window)) = 0"
    by (simp add: max_def)
  then show "urgency_points parse today (Some d) days_window = Inr 0"
    using a by (simp add: urgency_points_def Let_def)
next
  assume a: "d \<noteq> [] \<and> parse d = Some due_dt \<and> due_dt - today1 \<le> due_dt - today2 \<and> 0 < days_window"
  then have w: "days_window \<noteq> 0" by simp
  obtain u1 where u1: "urgency_points parse today1 (Some d) days_window = Inr u1"
    using urgency_points_returns [OF w] by blast
  obtain u2 where u2: "urgency_points parse today2 (Some d) days_window = Inr u2"
    using urgency_points_returns [OF w] by blast
  have "u2 \<le> u1"
  proof (cases "due_dt - today1 \<le> 0")
    case True
    then have "u1 = 30" using a u1 by (simp add: urgency_points_def)
    then show ?thesis using urgency_points_range [OF u2] by simp
  next
    case False
    then have p1: "0 < due_dt - today1" and p2: "0 < due_dt - today2" using a by linarith+
    have le: "(of_int (due_dt - today1) :: rat) \<le> of_int (due_dt - today2)"
      using a by (simp only: of_int_le_iff)
    have pos: "(0 :: rat) < of_int days_window" using a by simp
    have "(of_int (due_dt - today1) :: rat) / of_int days_window
            \<le> of_int (due_dt - today2) / of_int days_window"
      using le pos by (simp add: divide_right_mono)
    then have m: "30 * (1 - (of_int (due_dt - today2) :: rat) / of_int days_window)
            \<le> 30 * (1 - of_int (due_dt - today1) / of_int days_window)"
      by (rule ramp_antimono)
    have e1: "u1 = min 30 (max 0 (30 * (1 - of_int (due_dt - today1) / of_int days_window)))"
    proof -
      have "urgency_points parse today1 (Some d) days_window
              = Inr (min 30 (max 0 (30 * (1 - of_int (due_dt - today1) / of_int days_window))))"
        using a p1 w by (intro urgency_points_ramp) simp_all
      with u1 show ?thesis by (simp only: sum.inject)
    qed
    have e2: "u2 = min 30 (max 0 (30 * (1 - of_int (due_dt - today2) / of_int days_window)))"
    proof -
      have "urgency_points parse today2 (Some d) days_window
              = Inr (min 30 (max 0 (30 * (1 - of_int (due_dt - today2) / of_int days_window))))"
        using a p2 w by (intro urgency_points_ramp) simp_all
      with u2 show ?thesis by (simp only: sum.inject)
    qed
    show ?thesis
      unfolding e1 e2 using m by (intro min.mono max.mono) simp_all
  qed
  with u1 u2 show "\<exists>u1 u2. urgency_points parse today1 (Some d) days_window = Inr u1
                \<and> urgency_points parse today2 (Some d) days_window = Inr u2 \<and> u2 \<le> u1"
    by blast
qed

theorem urgency_points_shape_witness:
  "urgency_points example_parse 20 (Some ''2025-08-15'') 14 = Inr 30
   \<and> urgency_points example_parse 13 (Some ''2025-08-15'') 14 = Inr 15
   \<and> urgency_points example_parse 6 (Some ''2025-08-15'') 14 = Inr 0
   \<and> urgency_points example_parse 13 (Some ''soon'') 14 = Inr 0
   \<and> (\<exists>u1 u2. urgency_points example_parse 13 (Some ''2025-08-15'') 14 = Inr u1
         \<and> urgency_points example_parse 6 (Some ''2025-08-15'') 14 = Inr u2 \<and> u2 \<le> u1)"
  using urgency_points_shape [where parse = example_parse and today = 20 and days_window = 14
      and bad = "''soon''" and d = "''2025-08-15''" and due_dt = 20 and ?today1.0 = 13 and ?today2.0 = 6]
    urgency_points_shape [where parse = example_parse and today = 13 and days_window = 14
      and bad = "''soon''" and d = "''2025-08-15''" and due_dt = 20 and ?today1.0 = 13 and ?today2.0 = 6]
    urgency_points_shape [where parse = example_parse and today = 6 and days_window = 14
      and bad = "''soon''" and d = "''2025-08-15''" and due_dt = 20 and ?today1.0 = 13 and ?today2.0 = 6]
  by (simp add: example_parse_simps)

subsection \<open>The five first rows (C9)\<close>

text \<open>
  Claim C9. \<open>top5\<close> gives the seven selected columns of the first five rows of a
  rearrangement of the task table in which every row stands before every row with a
  greater label, and, among rows with the same label, before every row with a smaller
  score; labels compare as strings, so P1 is before P2, P2 before P3 and P3 before P4.
  It gives five rows, or all of them when the table has fewer. In particular, rows with
  labels P2, P1, P1, P3 and scores 50, 90, 70, 10 come out as P1/90, P1/70, P2/50, P3/10.
\<close>

theorem top5_order:
  "(\<exists>ys. mset ys = mset df
        \<and> sorted_wrt (\<lambda>a b. priority_label a < priority_label b
              \<or> (priority_label a = priority_label b \<and> priority_score b \<le> priority_score a)) ys
        \<and> top5 df = map top_columns (take 5 ys))
   \<and> length (top5 df) = min 5 (length df)
   \<and> (''P1'' :: string) < ''P2'' \<and> (''P2'' :: string) < ''P3'' \<and> (''P3'' :: string) < ''P4''
   \<and> (priority_label a = ''P2'' \<and> priority_score a = 50
      \<and> priority_label b = ''P1'' \<and> priority_score b = 90
      \<and> priority_label c = ''P1'' \<and> priority_score c = 70
      \<and> priority_label e = ''P3'' \<and> priority_score e = 10 \<longrightarrow>
      top5 [a, b, c, e] = map top_columns [b, c, a, e])"
proof (intro conjI impI)
  let ?ys = "sort_key (\<lambda>t. (priority_label t, - priority_score t)) df"
  have "mset ?ys = mset df" by (rule mset_sort)
  moreover note sorted_by_label_score [of df]
  moreover have "top5 df = map top_columns (take 5 ?ys)"
    by (cases df) (simp_all add: top5_def)
  ultimately show "\<exists>ys. mset ys = mset df
        \<and> sorted_wrt (\<lambda>a b. priority_label a < priority_label b
              \<or> (priority_label a = priority_label b \<and> priority_score b \<le> priority_score a)) ys
        \<and> top5 df = map top_columns (take 5 ys)"
    by blast
next
  show "length (top5 df) = min 5 (length df)"
    by (cases df) (simp_all add: top5_def min_def)
next
  show "(''P1'' :: string) < ''P2''" "(''P2'' :: string) < ''P3''" "(''P3'' :: string) < ''P4''"
    by (rule label_order)+
next
  assume h: "priority_label a = ''P2'' \<and> priority_score a = 50
      \<and> priority_label b = ''P1'' \<and> priority_score b = 90
      \<and> priority_label c = ''P1'' \<and> priority_score c = 70
      \<and> priority_label e = ''P3'' \<and> priority_score e = 10"
  have o: "\<not> (''P2'' :: string) < ''P1''" "\<not> (''P3'' :: string) < ''P1''" "\<not> (''P3'' :: string) < ''P2''"
    "(''P1'' :: string) < ''P3''"
    using label_order by (auto dest: less_trans less_asym)
  show "top5 [a, b, c, e] = map top_columns [b, c, a, e]"
    using h o label_order by (simp add: top5_def key_le_iff)
qed

theorem top5_order_witness:
  "map fst (top5 ranked_tasks) = [2, 3, 1, 4]
   \<and> top5 ranked_tasks = map top_columns [ranked 2 ''P1'' 90, ranked 3 ''P1'' 70, ranked 1 ''P2'' 50, ranked 4 ''P3'' 10]"
  using top5_order [of ranked_tasks "ranked 1 ''P2'' 50" "ranked 2 ''P1'' 90" "ranked 3 ''P1'' 70" "ranked 4 ''P3'' 10"]
  by (simp add: ranked_tasks_def ranked_def top_columns_def example_task_def)

subsection \<open>What recalc\_priority reads (C10)\<close>

text \<open>
  Claim C10. Two rows that agree on status, due date, required and received information,
  business impact, effort and dependencies, scored against two task tables whose rows
  agree, in order, on id and status, give the same outcome (the same tuple, or the same
  error): title, description, category, tags and id of the row play no part.
\<close>

theorem recalc_priority_reads_only:
  assumes "status r1 = status r2" and "due_date r1 = due_date r2"
    and "required_info r1 = required_info r2" and "received_info r1 = received_info r2"
    and "business_impact r1 = business_impact r2" and "effort r1 = effort r2"
    and "dependencies r1 = dependencies r2"
    and "map (\<lambda>t. (id t, status t)) ts1 = map (\<lambda>t. (id t, status t)) ts2"
  shows "recalc_priority max_str_digits parse today r1 ts1 days_window
       = recalc_priority max_str_digits parse today r2 ts2 days_window"
proof -
  have "deps_open max_str_digits (get_or (dependencies r2) []) ts1
          = deps_open max_str_digits (get_or (dependencies r2) []) ts2"
    using assms(8) by (rule deps_open_cong)
  then show ?thesis
    by (simp add: recalc_priority_def Let_def assms(1-7) split: sum.splits)
qed

theorem recalc_priority_reads_only_witness:
  "recalc_priority 4300 (\<lambda>s. Some 0) 0 dependent_task [done_task] 14
     = recalc_priority 4300 (\<lambda>s. Some 0) 0
         (dependent_task\<lparr>id := 40, title := ''Other'', description := ''text'',
            category := ''Escuela'', tags := [''a'']\<rparr>)
         [done_task\<lparr>title := ''Renamed'', due_date := None, effort := Some 8\<rparr>] 14"
  using recalc_priority_reads_only
    [where ?r1.0 = dependent_task
       and ?r2.0 = "dependent_task\<lparr>id := 40, title := ''Other'', description := ''text'',
            category := ''Escuela'', tags := [''a'']\<rparr>"
       and ?ts1.0 = "[done_task]"
       and ?ts2.0 = "[done_task\<lparr>title := ''Renamed'', due_date := None, effort := Some 8\<rparr>]"
       and max_str_digits = 4300 and parse = "\<lambda>s. Some 0" and today = 0 and days_window = 14]
  by simp

end
